theory Spec2Isabelle
  imports Main "HOL-Library.Multiset" "HOL-Library.Sublist" "HOL-Library.AList"
begin

section \<open>Python values used by detection.py\<close>

text \<open>
  Exceptions are values.  \<open>SystemExit\<close> is what \<open>sys.exit\<close> raises; the other
  constructors are the exception classes that the script lets propagate.
\<close>

datatype py_error =
    KeyError string
  | ValueError string
  | OverflowError string
  | FileNotFoundError string
  | ParseError string
  | SystemExit int

subsection \<open>Python floats (IEEE 754 binary64, round to nearest, ties to even)\<close>

text \<open>
  \<open>training_percentage\<close> is a Python \<open>float\<close>.  A finite float is kept as a pair
  \<open>Finite m e\<close> that stands for the number \<open>m * 2 ^ e\<close>; every operation computes the
  exact result as a ratio of integers and rounds it once with \<open>round_ratio\<close>, which is
  what binary64 arithmetic does.  The sign of a zero is not kept: no operation used
  by the script can observe it.
\<close>

datatype pyfloat = Finite int int | PosInf | NegInf | NaN

function bitlen :: "int \<Rightarrow> int" where
  "bitlen n = (if n \<le> 0 then 0 else 1 + bitlen (n div 2))"
  by pat_completeness auto
termination
  by (relation "measure nat") auto

declare bitlen.simps [simp del]

text \<open>
  \<open>round_ratio p q\<close> is the binary64 number nearest to \<open>p / q\<close> (for \<open>q > 0\<close>):
  \<open>e\<close> is the binary exponent of \<open>|p / q|\<close>, \<open>s\<close> the exponent of the last
  mantissa bit (53 bits of precision, never below the subnormal quantum
  \<open>2 ^ -1074\<close>), \<open>m\<close> the quotient rounded half to even, and a result of
  \<open>2 ^ 1024\<close> or more overflows to an infinity.
\<close>

definition round_ratio :: "int \<Rightarrow> int \<Rightarrow> pyfloat" where
  "round_ratio p q =
     (if p = 0 then Finite 0 0
      else
        let a = \<bar>p\<bar>;
            d = bitlen a - bitlen q;
            e = (if (if 0 \<le> d then q * 2 ^ nat d \<le> a else q \<le> a * 2 ^ nat (- d))
                 then d else d - 1);
            s = max (e - 52) (- 1074);
            num = (if 0 \<le> s then a else a * 2 ^ nat (- s));
            den = (if 0 \<le> s then q * 2 ^ nat s else q);
            k = num div den;
            r = num mod den;
            m = (if 2 * r < den then k else if den < 2 * r then k + 1
                 else if even k then k else k + 1)
        in if 1024 < bitlen m + s then (if 0 < p then PosInf else NegInf)
           else Finite (sgn p * m) s)"

definition round_dyadic :: "int \<Rightarrow> int \<Rightarrow> pyfloat" where
  "round_dyadic m e =
     (if 0 \<le> e then round_ratio (m * 2 ^ nat e) 1 else round_ratio m (2 ^ nat (- e)))"

text \<open>A decimal literal such as \<open>0.8\<close> denotes the float nearest to \<open>8 / 10\<close>.\<close>

definition float_literal :: "int \<Rightarrow> int \<Rightarrow> pyfloat" where
  "float_literal p q = round_ratio p q"

text \<open>\<open>int * float\<close> and \<open>int - float\<close> first convert the \<open>int\<close>; a too large one raises.\<close>

definition float_of_int :: "int \<Rightarrow> py_error + pyfloat" where
  "float_of_int n =
     (case round_ratio n 1 of
        Finite m e \<Rightarrow> Inr (Finite m e)
      | _ \<Rightarrow> Inl (OverflowError ''int too large to convert to float''))"

fun float_mul :: "pyfloat \<Rightarrow> pyfloat \<Rightarrow> pyfloat" where
  "float_mul (Finite m1 e1) (Finite m2 e2) = round_dyadic (m1 * m2) (e1 + e2)"
| "float_mul (Finite m e) PosInf = (if m = 0 then NaN else if 0 < m then PosInf else NegInf)"
| "float_mul (Finite m e) NegInf = (if m = 0 then NaN else if 0 < m then NegInf else PosInf)"
| "float_mul PosInf (Finite m e) = (if m = 0 then NaN else if 0 < m then PosInf else NegInf)"
| "float_mul NegInf (Finite m e) = (if m = 0 then NaN else if 0 < m then NegInf else PosInf)"
| "float_mul PosInf PosInf = PosInf"
| "float_mul PosInf NegInf = NegInf"
| "float_mul NegInf PosInf = NegInf"
| "float_mul NegInf NegInf = PosInf"
| "float_mul NaN _ = NaN"
| "float_mul _ NaN = NaN"

fun float_sub :: "pyfloat \<Rightarrow> pyfloat \<Rightarrow> pyfloat" where
  "float_sub (Finite m1 e1) (Finite m2 e2) =
     (let e = min e1 e2
      in round_dyadic (m1 * 2 ^ nat (e1 - e) - m2 * 2 ^ nat (e2 - e)) e)"
| "float_sub (Finite m e) PosInf = NegInf"
| "float_sub (Finite m e) NegInf = PosInf"
| "float_sub PosInf (Finite m e) = PosInf"
| "float_sub NegInf (Finite m e) = NegInf"
| "float_sub PosInf PosInf = NaN"
| "float_sub PosInf NegInf = PosInf"
| "float_sub NegInf PosInf = NegInf"
| "float_sub NegInf NegInf = NaN"
| "float_sub NaN _ = NaN"
| "float_sub _ NaN = NaN"

text \<open>\<open>math.floor\<close> returns an \<open>int\<close>; it raises on an infinity and on a NaN.\<close>

fun math_floor :: "pyfloat \<Rightarrow> py_error + int" where
  "math_floor (Finite m e) =
     Inr (if 0 \<le> e then m * 2 ^ nat e else m div 2 ^ nat (- e))"
| "math_floor NaN = Inl (ValueError ''cannot convert float NaN to integer'')"
| "math_floor _ = Inl (OverflowError ''cannot convert float infinity to integer'')"

section \<open>The dataset store\<close>

text \<open>
  A sample of a dataset has a file path, tags, and label fields; a label field is
  either null (\<open>None\<close>) or holds a list of detections, each with a label string.
\<close>

datatype detection = Detection (label: string)

record sample =
  filepath :: string
  tags :: "string list"
  label_fields :: "string \<Rightarrow> detection list option"

text \<open>
  The environment of the script: the datasets of the store by name, the order in
  which the store returns a view shuffled with a given seed (a function of the seed
  and the samples), the directories of the file system and its text files.
\<close>

record world =
  datasets :: "string \<rightharpoonup> sample list"
  seeded_shuffle :: "int \<Rightarrow> sample list \<Rightarrow> sample list"
  isdir :: "string \<Rightarrow> bool"
  files :: "string \<rightharpoonup> string"

definition load_dataset :: "world \<Rightarrow> string \<Rightarrow> py_error + sample list" where
  "load_dataset w dataset_name =
     (case datasets w dataset_name of
        None \<Rightarrow> Inl (ValueError (''Dataset not found: '' @ dataset_name))
      | Some ds \<Rightarrow> Inr ds)"

definition match_tags :: "string \<Rightarrow> sample list \<Rightarrow> sample list" where
  "match_tags t xs = filter (\<lambda>s. t \<in> set (tags s)) xs"

text \<open>
  The stages of a view belong to the dataset library (fiftyone), which is not part
  of the repository's sources; they are written as the library documents them.
  \<open>view.skip(n)\<close> omits the first \<open>n\<close> samples (none when \<open>n\<close> is not positive).
  \<open>view.take(size, seed=None)\<close> "randomly samples the given number of samples from
  the collection", and returns an empty view when \<open>size\<close> is not positive; the first
  samples of a view are what \<open>limit\<close> returns, which the script does not call.  The
  script builds the \<open>take\<close> stages and never passes a seed, so their content is not
  a function of the view: \<open>is_take size xs ys\<close> says that \<open>ys\<close> is a possible
  content of \<open>xs.take(size)\<close>, any selection of \<open>size\<close> samples of \<open>xs\<close>.
\<close>

definition skip :: "int \<Rightarrow> 'a list \<Rightarrow> 'a list" where
  "skip n xs = drop (nat n) xs"

definition is_take :: "int \<Rightarrow> 'a list \<Rightarrow> 'a list \<Rightarrow> bool" where
  "is_take n xs ys =
     (if n \<le> 0 then ys = []
      else mset ys \<subseteq># mset xs \<and> length ys = min (nat n) (length xs))"

section \<open>export_voxel51_dataset_to_tfrecords\<close>

text \<open>Lines 121 to 123: the sizes of the training and of the validation set.\<close>

definition split_lengths :: "int \<Rightarrow> pyfloat \<Rightarrow> py_error + (int \<times> int)" where
  "split_lengths sample_len training_percentage =
     (case float_of_int sample_len of
        Inl err \<Rightarrow> Inl err
      | Inr n \<Rightarrow>
     (case math_floor (float_mul n training_percentage) of
        Inl err \<Rightarrow> Inl err
      | Inr train_len \<Rightarrow>
     (case math_floor (float_mul n (float_sub (Finite 1 0) training_percentage)) of
        Inl err \<Rightarrow> Inl err
      | Inr val_len \<Rightarrow> Inr (train_len, val_len))))"

text \<open>
  An export call hands a view to the exporter: the samples the \<open>take\<close> stage draws
  from, the size it was built with, the target directory and the label field.
\<close>

record export_call =
  export_dir :: string
  take_from :: "sample list"
  take_size :: int
  export_label_field :: string

text \<open>
  The function returns nothing; what it does is the list of export calls it has
  made when it returns or raises.
\<close>

definition export_voxel51_dataset_to_tfrecords ::
  "world \<Rightarrow> string \<Rightarrow> (string \<rightharpoonup> string) \<Rightarrow> string \<Rightarrow> pyfloat
     \<Rightarrow> export_call list \<times> (py_error + unit)" where
  "export_voxel51_dataset_to_tfrecords w dataset_name filepaths label_field training_percentage =
     (case load_dataset w dataset_name of
        Inl err \<Rightarrow> ([], Inl err)
      | Inr dataset \<Rightarrow>
     (let view = seeded_shuffle w 51 (match_tags ''training'' dataset);
          sample_len = int (length view)
      in case split_lengths sample_len training_percentage of
        Inl err \<Rightarrow> ([], Inl err)
      | Inr (train_len, val_len) \<Rightarrow>
     (case filepaths ''val_export_dir'' of
        None \<Rightarrow> ([], Inl (KeyError ''val_export_dir''))
      | Some val_dir \<Rightarrow>
     (let val_call = \<lparr>export_dir = val_dir, take_from = view, take_size = val_len,
                       export_label_field = label_field\<rparr>
      in case filepaths ''train_export_dir'' of
        None \<Rightarrow> ([val_call], Inl (KeyError ''train_export_dir''))
      | Some train_dir \<Rightarrow>
          ([val_call,
            \<lparr>export_dir = train_dir, take_from = skip val_len view, take_size = train_len,
             export_label_field = label_field\<rparr>],
           Inr ())))))"

section \<open>set_filenames\<close>

text \<open>
  \<open>base_models\<close> is the dictionary read from \<open>base_models.json\<close>: model key to a
  dictionary of strings.  Indexing a dictionary with a missing key raises
  \<open>KeyError\<close>.
\<close>

type_synonym base_models = "string \<rightharpoonup> (string \<rightharpoonup> string)"

definition getitem :: "(string \<rightharpoonup> 'v) \<Rightarrow> string \<Rightarrow> py_error + 'v" where
  "getitem d k = (case d k of None \<Rightarrow> Inl (KeyError k) | Some v \<Rightarrow> Inr v)"

definition set_filenames ::
  "base_models \<Rightarrow> string \<Rightarrow> string \<Rightarrow> py_error + (string \<rightharpoonup> string)" where
  "set_filenames base_models training_name chosen_model =
     (case getitem base_models chosen_model of
        Inl err \<Rightarrow> Inl err
      | Inr model \<Rightarrow>
     (case getitem model ''base_pipeline_file'' of
        Inl err \<Rightarrow> Inl err
      | Inr base_pipeline_file \<Rightarrow>
     (case getitem model ''model_name'' of
        Inl err \<Rightarrow> Inl err
      | Inr model_name \<Rightarrow>
     (case getitem model ''pretrained_checkpoint'' of
        Inl err \<Rightarrow> Inl err
      | Inr pretrained_checkpoint \<Rightarrow>
          Inr [''train_record_file'' \<mapsto>
                 ''/tf/dataset-export/'' @ training_name @ ''/train/tf.records'',
               ''val_record_file'' \<mapsto>
                 ''/tf/dataset-export/'' @ training_name @ ''/val/tf.records'',
               ''val_export_dir'' \<mapsto> ''/tf/dataset-export/'' @ training_name @ ''/val/'',
               ''train_export_dir'' \<mapsto> ''/tf/dataset-export/'' @ training_name @ ''/train/'',
               ''model_export_dir'' \<mapsto> ''/tf/model-export/'' @ training_name @ ''/'',
               ''label_map_file'' \<mapsto>
                 ''/tf/dataset-export/'' @ training_name @ ''/label_map.pbtxt'',
               ''model_dir'' \<mapsto> ''/tf/training/'' @ training_name @ ''/'',
               ''pretrained_checkpoint'' \<mapsto> pretrained_checkpoint,
               ''pipeline_file'' \<mapsto> ''/tf/models/research/deploy/'' @ base_pipeline_file,
               ''fine_tune_checkpoint'' \<mapsto>
                 ''/tf/models/research/deploy/'' @ model_name @ ''/checkpoint/ckpt-0'',
               ''base_pipeline_file'' \<mapsto> base_pipeline_file]))))"

text \<open>
  The entries whose value is built from \<open>training_name\<close>, and all the keys of the
  returned dictionary.
\<close>

definition run_path_keys :: "string list" where
  "run_path_keys =
     [''train_record_file'', ''val_record_file'', ''val_export_dir'', ''train_export_dir'',
      ''model_export_dir'', ''label_map_file'', ''model_dir'']"

definition base_model_keys :: "string list" where
  "base_model_keys =
     [''pretrained_checkpoint'', ''pipeline_file'', ''fine_tune_checkpoint'',
      ''base_pipeline_file'']"

text \<open>
  The two properties the specification states of the returned dictionary: its path
  strings are pairwise distinct, and each contains the training name as a substring.
\<close>

definition paths_pairwise_distinct :: "(string \<rightharpoonup> string) \<Rightarrow> bool" where
  "paths_pairwise_distinct fp =
     (\<forall>k1 \<in> dom fp. \<forall>k2 \<in> dom fp. k1 \<noteq> k2 \<longrightarrow> fp k1 \<noteq> fp k2)"

definition all_paths_contain :: "string \<Rightarrow> (string \<rightharpoonup> string) \<Rightarrow> bool" where
  "all_paths_contain training_name fp = (\<forall>p \<in> ran fp. sublist training_name p)"

section \<open>train_detection_model\<close>

text \<open>
  What the driver does to its environment is recorded as a trace of events.
  \<open>json_load\<close> stands for the JSON reader applied to the text of the file.
\<close>

datatype event = LogError string | OpenRead string

definition load_base_models_json ::
  "(string \<Rightarrow> py_error + base_models) \<Rightarrow> world \<Rightarrow> string
     \<Rightarrow> event list \<times> (py_error + base_models)" where
  "load_base_models_json json_load w filename =
     (case files w filename of
        None \<Rightarrow> ([], Inl (FileNotFoundError filename))
      | Some txt \<Rightarrow> ([OpenRead filename], json_load txt))"

definition train_detection_model ::
  "(string \<Rightarrow> py_error + base_models) \<Rightarrow> world \<Rightarrow> string \<Rightarrow> string
     \<Rightarrow> event list \<times> (py_error + unit)" where
  "train_detection_model json_load w training_name chosen_model =
     (if isdir w (''/tf/ml-model/dataset-export/'' @ training_name)
      then ([LogError ''Must use unique model name.''], Inl (SystemExit 1))
      else
        (case load_base_models_json json_load w ''base_models.json'' of
           (evs, Inl err) \<Rightarrow> (evs, Inl err)
         | (evs, Inr base_models) \<Rightarrow>
             (case set_filenames base_models training_name chosen_model of
                Inl err \<Rightarrow> (evs, Inl err)
              | Inr filepaths \<Rightarrow> (evs, Inr ()))))"

section \<open>The class-name list and the label map\<close>

text \<open>
  The inner loop of \<open>_create_list_of_class_names\<close> over the detections of one
  sample, and the outer loop over the samples of the view.
\<close>

fun add_labels :: "detection list \<Rightarrow> string list \<Rightarrow> string list" where
  "add_labels [] class_names = class_names"
| "add_labels (d # ds) class_names =
     add_labels ds
       (if label d \<in> set class_names then class_names else class_names @ [label d])"

fun scan_samples :: "string \<Rightarrow> sample list \<Rightarrow> string list \<Rightarrow> string list" where
  "scan_samples label_field [] class_names = class_names"
| "scan_samples label_field (s # ss) class_names =
     scan_samples label_field ss
       (case label_fields s label_field of
          None \<Rightarrow> class_names
        | Some detections \<Rightarrow> add_labels detections class_names)"

definition create_list_of_class_names :: "sample list \<Rightarrow> string \<Rightarrow> string list" where
  "create_list_of_class_names view label_field = scan_samples label_field view []"

text \<open>
  What the specification says the list is: every label of the samples whose field is
  not null, in scan order, each kept at its first occurrence only.
\<close>

definition labels_in_scan_order :: "sample list \<Rightarrow> string \<Rightarrow> string list" where
  "labels_in_scan_order view label_field =
     concat (map (\<lambda>s. case label_fields s label_field of
                         None \<Rightarrow> []
                       | Some detections \<Rightarrow> map label detections) view)"

fun first_occurrences :: "'a list \<Rightarrow> 'a list" where
  "first_occurrences [] = []"
| "first_occurrences (x # xs) = x # first_occurrences (filter (\<lambda>y. y \<noteq> x) xs)"

text \<open>The label map message: a list of items, each with an id and a name.\<close>

datatype label_map_item = StringIntLabelMapItem (item_id: int) (item_name: string)

fun enumerate :: "int \<Rightarrow> 'a list \<Rightarrow> (int \<times> 'a) list" where
  "enumerate start [] = []"
| "enumerate start (x # xs) = (start, x) # enumerate (start + 1) xs"

definition build_label_map :: "string list \<Rightarrow> label_map_item list" where
  "build_label_map class_names =
     map (\<lambda>(i, name). StringIntLabelMapItem i name) (enumerate 1 class_names)"

section \<open>The text format of the label map\<close>

text \<open>
  Modelled from the spec: \<open>text_format.MessageToBytes(msg, as_utf8=True)\<close> is a
  function of the protocol buffer library, which is not part of the repository's
  sources.  The specification describes its result as UTF-8 text with one entry per
  class, each with an integer \<open>id\<close> and a string \<open>name\<close>.  The layout is the one
  the library documents: one \<open>item\<close> block per item, the fields in the order of
  their field numbers (\<open>name\<close> is field 1, \<open>id\<close> field 2), two spaces of
  indentation, integers in decimal, and in a string the characters tab, newline,
  carriage return, double quote, single quote and backslash escaped with a
  backslash, every other character left as it is.  Strings are byte strings in
  UTF-8; the escaped characters are all ASCII.
\<close>

definition newline :: char where "newline = CHR 0x0A"
definition dquote :: char where "dquote = CHR 0x22"
definition squote :: char where "squote = CHR 0x27"
definition backslash :: char where "backslash = CHR 0x5C"
definition tab :: char where "tab = CHR 0x09"
definition creturn :: char where "creturn = CHR 0x0D"

definition escape_char :: "char \<Rightarrow> string" where
  "escape_char c =
     (if c = tab then [backslash, CHR ''t'']
      else if c = newline then [backslash, CHR ''n'']
      else if c = creturn then [backslash, CHR ''r'']
      else if c = dquote then [backslash, dquote]
      else if c = squote then [backslash, squote]
      else if c = backslash then [backslash, backslash]
      else [c])"

definition c_escape :: "string \<Rightarrow> string" where
  "c_escape s = concat (map escape_char s)"

definition digit_char :: "nat \<Rightarrow> char" where
  "digit_char d = ''0123456789'' ! d"

function show_nat :: "nat \<Rightarrow> string" where
  "show_nat n = (if n < 10 then [digit_char n] else show_nat (n div 10) @ [digit_char (n mod 10)])"
  by pat_completeness auto
termination
  by (relation "measure id") auto

declare show_nat.simps [simp del]

definition show_int :: "int \<Rightarrow> string" where
  "show_int i = (if i < 0 then CHR ''-'' # show_nat (nat (- i)) else show_nat (nat i))"

definition print_item :: "label_map_item \<Rightarrow> string" where
  "print_item it =
     ''item {'' @ [newline] @
     ''  name: '' @ [dquote] @ c_escape (item_name it) @ [dquote] @ [newline] @
     ''  id: '' @ show_int (item_id it) @ [newline] @
     ''}'' @ [newline]"

definition message_to_text :: "label_map_item list \<Rightarrow> string" where
  "message_to_text msg = concat (map print_item msg)"

text \<open>
  Modelled from the spec: the label-map reader (\<open>text_format.Merge\<close>, called by
  \<open>label_map_util.load_labelmap\<close>) is a library function too.  The specification
  says that it parses the text back into the label map.  It is written here for the
  layout the printer produces: the text is cut into lines, four lines make an item.
  Any other layout is reported as a parse error, although the library's reader
  accepts more.
\<close>

fun split_lines_acc :: "string \<Rightarrow> string \<Rightarrow> string list" where
  "split_lines_acc cur [] = (if cur = [] then [] else [rev cur])"
| "split_lines_acc cur (c # cs) =
     (if c = newline then rev cur # split_lines_acc [] cs else split_lines_acc (c # cur) cs)"

definition split_lines :: "string \<Rightarrow> string list" where
  "split_lines s = split_lines_acc [] s"

fun strip_prefix :: "string \<Rightarrow> string \<Rightarrow> string option" where
  "strip_prefix [] s = Some s"
| "strip_prefix (p # ps) [] = None"
| "strip_prefix (p # ps) (c # cs) = (if p = c then strip_prefix ps cs else None)"

definition unescape_char :: "char \<Rightarrow> char option" where
  "unescape_char c =
     (if c = CHR ''t'' then Some tab
      else if c = CHR ''n'' then Some newline
      else if c = CHR ''r'' then Some creturn
      else if c = dquote then Some dquote
      else if c = squote then Some squote
      else if c = backslash then Some backslash
      else None)"

text \<open>The rest of a line after the opening quote of a string, up to its closing quote.\<close>

fun unescape_quoted :: "string \<Rightarrow> string option" where
  "unescape_quoted [] = None"
| "unescape_quoted [c] = (if c = dquote then Some [] else None)"
| "unescape_quoted (c # d # cs) =
     (if c = dquote then None
      else if c = backslash then
        (case unescape_char d of
           None \<Rightarrow> None
         | Some x \<Rightarrow> map_option ((#) x) (unescape_quoted cs))
      else map_option ((#) c) (unescape_quoted (d # cs)))"

definition digit_value :: "char \<Rightarrow> nat option" where
  "digit_value c = map_of (zip ''0123456789'' [0, 1, 2, 3, 4, 5, 6, 7, 8, 9]) c"

fun parse_digits :: "nat \<Rightarrow> string \<Rightarrow> nat option" where
  "parse_digits acc [] = Some acc"
| "parse_digits acc (c # cs) =
     (case digit_value c of None \<Rightarrow> None | Some d \<Rightarrow> parse_digits (10 * acc + d) cs)"

text \<open>A decimal number; a leading zero would make the library read octal, and is refused.\<close>

definition parse_nat :: "string \<Rightarrow> nat option" where
  "parse_nat s =
     (case s of
        [] \<Rightarrow> None
      | c # cs \<Rightarrow> if c = CHR ''0'' \<and> cs \<noteq> [] then None else parse_digits 0 s)"

definition parse_int :: "string \<Rightarrow> int option" where
  "parse_int s =
     (case s of
        [] \<Rightarrow> None
      | c # cs \<Rightarrow>
          if c = CHR ''-'' then map_option (\<lambda>n. - int n) (parse_nat cs)
          else map_option int (parse_nat s))"

definition parse_name_line :: "string \<Rightarrow> string option" where
  "parse_name_line l =
     (case strip_prefix (''  name: '' @ [dquote]) l of
        None \<Rightarrow> None
      | Some body \<Rightarrow> unescape_quoted body)"

definition parse_id_line :: "string \<Rightarrow> int option" where
  "parse_id_line l =
     (case strip_prefix ''  id: '' l of None \<Rightarrow> None | Some ds \<Rightarrow> parse_int ds)"

fun parse_items :: "string list \<Rightarrow> label_map_item list option" where
  "parse_items [] = Some []"
| "parse_items (l1 # l2 # l3 # l4 # rest) =
     (if l1 = ''item {'' \<and> l4 = ''}'' then
        (case parse_name_line l2 of
           None \<Rightarrow> None
         | Some name \<Rightarrow>
        (case parse_id_line l3 of
           None \<Rightarrow> None
         | Some i \<Rightarrow> map_option ((#) (StringIntLabelMapItem i name)) (parse_items rest)))
      else None)"
| "parse_items _ = None"

definition text_format_merge :: "string \<Rightarrow> py_error + label_map_item list" where
  "text_format_merge txt =
     (case parse_items (split_lines txt) of
        None \<Rightarrow> Inl (ParseError ''label map'')
      | Some msg \<Rightarrow> Inr msg)"

section \<open>create_detection_mapping, save_mapping_to_file\<close>

definition create_detection_mapping :: "world \<Rightarrow> string \<Rightarrow> string \<Rightarrow> py_error + string" where
  "create_detection_mapping w dataset_name label_field =
     (case load_dataset w dataset_name of
        Inl err \<Rightarrow> Inl err
      | Inr dataset \<Rightarrow>
          (let view = seeded_shuffle w 2021 (match_tags ''training'' dataset);
               class_names = create_list_of_class_names view label_field;
               msg = build_label_map class_names
           in Inr (message_to_text msg)))"

text \<open>
  \<open>open(path, "w")\<close> creates or truncates the file; it raises when the directory
  of the path (\<open>os.path.dirname\<close>) is not an existing directory.  An empty
  directory part is the current directory.
\<close>

definition os_dirname :: "string \<Rightarrow> string" where
  "os_dirname p =
     (let head = rev (dropWhile (\<lambda>c. c \<noteq> CHR ''/'') (rev p))
      in if head \<noteq> [] \<and> \<not> list_all (\<lambda>c. c = CHR ''/'') head
         then rev (dropWhile (\<lambda>c. c = CHR ''/'') (rev head))
         else head)"

definition write_file :: "world \<Rightarrow> string \<Rightarrow> string \<Rightarrow> py_error + world" where
  "write_file w path txt =
     (if os_dirname path \<noteq> [] \<and> \<not> isdir w (os_dirname path)
      then Inl (FileNotFoundError path)
      else Inr (w\<lparr>files := (files w)(path \<mapsto> txt)\<rparr>))"

definition save_mapping_to_file ::
  "world \<Rightarrow> string \<Rightarrow> (string \<rightharpoonup> string) \<Rightarrow> py_error + world" where
  "save_mapping_to_file w mapping filepaths =
     (case getitem filepaths ''label_map_file'' of
        Inl err \<Rightarrow> Inl err
      | Inr path \<Rightarrow> write_file w path mapping)"

section \<open>get_num_classes_from_label_map\<close>

text \<open>
  Modelled from the spec: \<open>label_map_util\<close> belongs to the object detection
  library, which is not part of the repository's sources.  The specification says
  that the file is parsed again by the label-map utilities, converted to a category
  index, and that the number of its keys is returned.  \<open>load_labelmap\<close> reads and
  parses the file and validates it as the library documents: an id below 0 is
  refused, and id 0 is reserved for an item named \<open>background\<close>.
\<close>

fun validate_label_map :: "label_map_item list \<Rightarrow> py_error + unit" where
  "validate_label_map [] = Inr ()"
| "validate_label_map (it # its) =
     (if item_id it < 0 then Inl (ValueError ''Label map ids should be >= 0.'')
      else if item_id it = 0 \<and> item_name it \<noteq> ''background''
        then Inl (ValueError ''Label map id 0 is reserved for the background label'')
      else validate_label_map its)"

definition load_labelmap :: "world \<Rightarrow> string \<Rightarrow> py_error + label_map_item list" where
  "load_labelmap w path =
     (case files w path of
        None \<Rightarrow> Inl (FileNotFoundError path)
      | Some txt \<Rightarrow>
     (case text_format_merge txt of
        Inl err \<Rightarrow> Inl err
      | Inr label_map \<Rightarrow>
     (case validate_label_map label_map of
        Inl err \<Rightarrow> Inl err
      | Inr _ \<Rightarrow> Inr label_map)))"

text \<open>
  Modelled from the spec:
  \<open>convert_label_map_to_categories(label_map, max_num_classes, use_display_name=True)\<close>
  and \<open>create_category_index\<close> are library functions.  As the library documents
  them, the first goes through the items, ignores an item whose id is not in the
  range \<open>0 < id \<le> max_num_classes\<close>, and keeps the first item of each id; the
  items the script writes have no display name, so the category carries the item's
  name.  The second makes the dictionary from id to category; the dictionary is
  kept as the list of its key and value pairs, in insertion order.
\<close>

fun convert_loop ::
  "int \<Rightarrow> label_map_item list \<Rightarrow> int list \<Rightarrow> (int \<times> string) list \<Rightarrow> (int \<times> string) list" where
  "convert_loop max_num_classes [] list_of_ids_already_added categories = categories"
| "convert_loop max_num_classes (it # its) list_of_ids_already_added categories =
     (if \<not> (0 < item_id it \<and> item_id it \<le> max_num_classes)
      then convert_loop max_num_classes its list_of_ids_already_added categories
      else if item_id it \<notin> set list_of_ids_already_added
      then convert_loop max_num_classes its (list_of_ids_already_added @ [item_id it])
             (categories @ [(item_id it, item_name it)])
      else convert_loop max_num_classes its list_of_ids_already_added categories)"

definition convert_label_map_to_categories ::
  "label_map_item list \<Rightarrow> int \<Rightarrow> (int \<times> string) list" where
  "convert_label_map_to_categories label_map max_num_classes =
     convert_loop max_num_classes label_map [] []"

definition create_category_index ::
  "(int \<times> string) list \<Rightarrow> (int \<times> (int \<times> string)) list" where
  "create_category_index categories =
     foldl (\<lambda>category_index cat. AList.update (fst cat) cat category_index) [] categories"

definition get_num_classes_from_label_map ::
  "world \<Rightarrow> (string \<rightharpoonup> string) \<Rightarrow> py_error + nat" where
  "get_num_classes_from_label_map w filepaths =
     (case getitem filepaths ''label_map_file'' of
        Inl err \<Rightarrow> Inl err
      | Inr path \<Rightarrow>
     (case load_labelmap w path of
        Inl err \<Rightarrow> Inl err
      | Inr label_map \<Rightarrow>
          (let categories = convert_label_map_to_categories label_map 90;
               category_index = create_category_index categories
           in Inr (length (map fst category_index)))))"

section \<open>Lines of the text format\<close>

text \<open>The four lines that \<open>print_item\<close> writes for an item.\<close>

definition item_lines :: "label_map_item \<Rightarrow> string list" where
  "item_lines it =
     [''item {'', ''  name: '' @ [dquote] @ c_escape (item_name it) @ [dquote],
      ''  id: '' @ show_int (item_id it), ''}'']"

section \<open>Example inputs\<close>

text \<open>
  A table of base models with one entry (and one whose entry has the same string in
  its three fields), a sample tagged \<open>training\<close>, and an
  environment whose store holds one dataset named \<open>planes\<close>, whose seeded shuffle
  returns the view in reverse order, and whose directories are the listed ones.
\<close>

definition example_model :: "string \<rightharpoonup> string" where
  "example_model =
     [''base_pipeline_file'' \<mapsto> ''ssd_mobilenet.config'',
      ''model_name'' \<mapsto> ''ssd_mobilenet'',
      ''pretrained_checkpoint'' \<mapsto> ''ssd_mobilenet.tar.gz'']"

definition example_base_models :: base_models where
  "example_base_models = [''ssd_mobilenet'' \<mapsto> example_model]"

definition training_sample :: "string \<Rightarrow> detection list option \<Rightarrow> sample" where
  "training_sample name dets =
     \<lparr>filepath = name, tags = [''training''], label_fields = (\<lambda>field. dets)\<rparr>"

definition example_world :: "sample list \<Rightarrow> string list \<Rightarrow> world" where
  "example_world dataset dirs =
     \<lparr>datasets = [''planes'' \<mapsto> dataset],
      seeded_shuffle = (\<lambda>seed view. rev view),
      isdir = (\<lambda>p. p \<in> set dirs),
      files = [''base_models.json'' \<mapsto> ''{}'']\<rparr>"

definition example_json_load :: "string \<Rightarrow> py_error + base_models" where
  "example_json_load txt = Inr example_base_models"

definition run1_filepaths :: "string \<rightharpoonup> string" where
  "run1_filepaths = projr (set_filenames example_base_models ''run1'' ''ssd_mobilenet'')"

definition sample_a :: sample where "sample_a = training_sample ''a.jpg'' None"
definition sample_b :: sample where "sample_b = training_sample ''b.jpg'' None"

definition cat_dog_cat :: "sample list" where
  "cat_dog_cat =
     [training_sample ''s1.jpg'' (Some [Detection ''cat'']),
      training_sample ''s2.jpg'' (Some [Detection ''dog'']),
      training_sample ''s3.jpg'' (Some [Detection ''cat''])]"

definition many_labels :: "string list" where
  "many_labels = map (\<lambda>n. replicate (Suc n) CHR ''a'') [0..<91]"

definition world_91 :: world where
  "world_91 = example_world [training_sample ''s1.jpg'' (Some (map Detection many_labels))]
     [''/tf/dataset-export/run1'']"

definition same_string_model :: "string \<rightharpoonup> string" where
  "same_string_model =
     [''base_pipeline_file'' \<mapsto> ''ssd_mobilenet'',
      ''model_name'' \<mapsto> ''ssd_mobilenet'',
      ''pretrained_checkpoint'' \<mapsto> ''ssd_mobilenet'']"

definition same_string_base_models :: base_models where
  "same_string_base_models = [''ssd_mobilenet'' \<mapsto> same_string_model]"

definition ten_samples :: "sample list" where
  "ten_samples = map (\<lambda>n. training_sample (show_nat n) None) [0..<10]"

definition world_cat_dog :: world where
  "world_cat_dog = example_world (rev cat_dog_cat) [''/tf/dataset-export/run1'']"

section \<open>The class-name list\<close>

lemma set_first_occurrences: "set (first_occurrences xs) = set xs"
  by (induction xs rule: first_occurrences.induct) auto

lemma distinct_first_occurrences: "distinct (first_occurrences xs)"
  by (induction xs rule: first_occurrences.induct) (auto simp: set_first_occurrences)

lemma first_occurrences_append:
  "first_occurrences (xs @ ys) =
     first_occurrences xs @ first_occurrences (filter (\<lambda>y. y \<notin> set xs) ys)"
proof (induction xs arbitrary: ys rule: first_occurrences.induct)
  case 1
  then show ?case by simp
next
  case (2 x xs)
  have eq: "filter (\<lambda>y. y \<notin> set (filter (\<lambda>y. y \<noteq> x) xs)) (filter (\<lambda>y. y \<noteq> x) ys)
            = filter (\<lambda>y. y \<notin> set (x # xs)) ys"
    by (auto simp: filter_filter intro: filter_cong)
  show ?case
    using "2.IH" [of "filter (\<lambda>y. y \<noteq> x) ys"] by (simp add: eq [simplified])
qed

lemma add_labels_eq:
  "add_labels ds cn = cn @ first_occurrences (filter (\<lambda>l. l \<notin> set cn) (map label ds))"
proof (induction ds arbitrary: cn)
  case Nil
  then show ?case by simp
next
  case (Cons d ds)
  have eq: "filter (\<lambda>y. y \<noteq> label d) (filter (\<lambda>l. l \<notin> set cn) (map label ds))
            = filter (\<lambda>l. l \<notin> set (cn @ [label d])) (map label ds)"
    by (auto simp: filter_filter intro: filter_cong)
  show ?case
  proof (cases "label d \<in> set cn")
    case True
    then show ?thesis using Cons.IH [of cn] by simp
  next
    case False
    then show ?thesis using Cons.IH [of "cn @ [label d]"] eq by simp
  qed
qed

lemma scan_samples_eq:
  "scan_samples lf ss cn =
     cn @ first_occurrences (filter (\<lambda>l. l \<notin> set cn) (labels_in_scan_order ss lf))"
proof (induction ss arbitrary: cn)
  case Nil
  then show ?case by (simp add: labels_in_scan_order_def)
next
  case (Cons s ss)
  show ?case
  proof (cases "label_fields s lf")
    case None
    then show ?thesis using Cons.IH [of cn] by (simp add: labels_in_scan_order_def)
  next
    case (Some ds)
    let ?L1 = "filter (\<lambda>l. l \<notin> set cn) (map label ds)"
    let ?L2 = "labels_in_scan_order ss lf"
    have eq: "filter (\<lambda>l. l \<notin> set (cn @ first_occurrences ?L1)) ?L2
              = filter (\<lambda>y. y \<notin> set ?L1) (filter (\<lambda>l. l \<notin> set cn) ?L2)"
      by (auto simp: filter_filter set_first_occurrences intro: filter_cong)
    have "scan_samples lf (s # ss) cn = scan_samples lf ss (cn @ first_occurrences ?L1)"
      using Some by (simp add: add_labels_eq)
    also have "\<dots> = cn @ first_occurrences ?L1 @ first_occurrences (filter (\<lambda>y. y \<notin> set ?L1) (filter (\<lambda>l. l \<notin> set cn) ?L2))"
      using Cons.IH [of "cn @ first_occurrences ?L1"] eq by simp
    also have "\<dots> = cn @ first_occurrences (?L1 @ filter (\<lambda>l. l \<notin> set cn) ?L2)"
      by (simp add: first_occurrences_append)
    finally show ?thesis using Some by (simp add: labels_in_scan_order_def)
  qed
qed


section \<open>The text format is read back\<close>

lemma digit_cases: "d < 10 \<Longrightarrow> d = 0 \<or> d = 1 \<or> d = 2 \<or> d = 3 \<or> d = 4 \<or> d = 5 \<or> d = 6 \<or> d = 7 \<or> d = 8 \<or> d = (9::nat)"
  by arith

lemma digit_value_digit_char: "d < 10 \<Longrightarrow> digit_value (digit_char d) = Some d"
  using digit_cases [of d] by (auto simp: digit_value_def digit_char_def)

lemma digit_char_not_special:
  "d < 10 \<Longrightarrow> digit_char d \<noteq> newline \<and> digit_char d \<noteq> CHR ''-''"
  using digit_cases [of d] by (auto simp: digit_char_def newline_def)

lemma digit_char_zero: "d < 10 \<Longrightarrow> digit_char d = CHR ''0'' \<Longrightarrow> d = 0"
  using digit_cases [of d] by (auto simp: digit_char_def)

lemma show_nat_nonempty: "show_nat n \<noteq> []"
  by (subst show_nat.simps) simp

lemma hd_show_nat:
  "hd (show_nat n) \<noteq> CHR ''-'' \<and> (hd (show_nat n) = CHR ''0'' \<longrightarrow> n = 0)"
proof (induction n rule: show_nat.induct)
  case (1 n)
  show ?case
  proof (cases "n < 10")
    case True
    then show ?thesis
      using digit_char_not_special [of n] digit_char_zero [of n]
      by (subst (1 2) show_nat.simps) auto
  next
    case False
    then have "show_nat n = show_nat (n div 10) @ [digit_char (n mod 10)]"
      by (subst show_nat.simps) simp
    then have "hd (show_nat n) = hd (show_nat (n div 10))"
      using show_nat_nonempty [of "n div 10"] by simp
    moreover have "n div 10 \<noteq> 0" using False by simp
    ultimately show ?thesis using 1 False by simp
  qed
qed

lemma newline_notin_show_nat: "newline \<notin> set (show_nat n)"
proof (induction n rule: show_nat.induct)
  case (1 n)
  show ?case
  proof (cases "n < 10")
    case True
    then show ?thesis using digit_char_not_special [of n]
      by (subst show_nat.simps) auto
  next
    case False
    then show ?thesis using 1 digit_char_not_special [of "n mod 10"]
      by (subst show_nat.simps) auto
  qed
qed

lemma parse_digits_show_nat:
  "parse_digits acc (show_nat n @ rest) =
     parse_digits (acc * 10 ^ length (show_nat n) + n) rest"
proof (induction n arbitrary: acc rest rule: show_nat.induct)
  case (1 n)
  show ?case
  proof (cases "n < 10")
    case True
    then show ?thesis
      by (subst (1 2) show_nat.simps) (simp add: digit_value_digit_char mult.commute)
  next
    case False
    have sn: "show_nat n = show_nat (n div 10) @ [digit_char (n mod 10)]"
      using False by (subst show_nat.simps) simp
    have "parse_digits acc (show_nat n @ rest) =
          parse_digits (acc * 10 ^ length (show_nat (n div 10)) + n div 10)
            (digit_char (n mod 10) # rest)"
      using 1 [OF False, of acc "digit_char (n mod 10) # rest"] sn by simp
    also have "\<dots> = parse_digits
        (10 * (acc * 10 ^ length (show_nat (n div 10)) + n div 10) + n mod 10) rest"
      by (simp add: digit_value_digit_char)
    also have "10 * (acc * 10 ^ length (show_nat (n div 10)) + n div 10) + n mod 10
               = acc * 10 ^ length (show_nat n) + n"
      by (simp add: sn algebra_simps)
    finally show ?thesis .
  qed
qed

lemma parse_nat_show_nat: "parse_nat (show_nat n) = Some n"
proof -
  obtain c cs where s: "show_nat n = c # cs"
    using show_nat_nonempty [of n] by (cases "show_nat n") auto
  have z: "c = CHR ''0'' \<longrightarrow> cs = []"
  proof
    assume "c = CHR ''0''"
    then have "n = 0" using hd_show_nat [of n] s by simp
    then have "show_nat n = [digit_char 0]" by (subst show_nat.simps) simp
    then show "cs = []" using s by simp
  qed
  have "parse_digits 0 (show_nat n @ []) = Some n"
    by (subst parse_digits_show_nat) simp
  then show ?thesis using s z by (auto simp: parse_nat_def)
qed

lemma parse_int_show_int: "parse_int (show_int i) = Some i"
proof (cases "i < 0")
  case True
  then show ?thesis by (simp add: parse_int_def show_int_def parse_nat_show_nat)
next
  case False
  obtain c cs where s: "show_nat (nat i) = c # cs"
    using show_nat_nonempty [of "nat i"] by (cases "show_nat (nat i)") auto
  then have "c \<noteq> CHR ''-''" using hd_show_nat [of "nat i"] by simp
  then show ?thesis
    using False s parse_nat_show_nat [of "nat i"] by (simp add: parse_int_def show_int_def)
qed

lemma newline_notin_show_int: "newline \<notin> set (show_int i)"
proof -
  have "newline \<noteq> CHR ''-''" by (simp add: newline_def)
  then show ?thesis by (simp add: show_int_def newline_notin_show_nat)
qed

lemma unescape_escape_char:
  "escape_char c = [c] \<and> c \<noteq> dquote \<and> c \<noteq> backslash \<and> c \<noteq> newline
   \<or> (\<exists>e. escape_char c = [backslash, e] \<and> unescape_char e = Some c \<and> e \<noteq> newline)"
  by (auto simp: escape_char_def unescape_char_def tab_def newline_def creturn_def dquote_def
      squote_def backslash_def)

lemma newline_notin_c_escape: "newline \<notin> set (c_escape s)"
proof (induction s)
  case Nil
  then show ?case by (simp add: c_escape_def)
next
  case (Cons c s)
  then show ?case using unescape_escape_char [of c]
    by (auto simp: c_escape_def backslash_def newline_def)
qed

lemma unescape_quoted_c_escape: "unescape_quoted (c_escape s @ [dquote]) = Some s"
proof (induction s)
  case Nil
  then show ?case by (simp add: c_escape_def)
next
  case (Cons c s)
  obtain d ds where rest: "c_escape s @ [dquote] = d # ds"
    by (cases "c_escape s @ [dquote]") auto
  have split: "c_escape (c # s) @ [dquote] = escape_char c @ d # ds"
    using rest by (simp add: c_escape_def)
  from unescape_escape_char [of c] show ?case
  proof
    assume "escape_char c = [c] \<and> c \<noteq> dquote \<and> c \<noteq> backslash \<and> c \<noteq> newline"
    then show ?thesis using Cons rest split by simp
  next
    assume "\<exists>e. escape_char c = [backslash, e] \<and> unescape_char e = Some c \<and> e \<noteq> newline"
    then obtain e where "escape_char c = [backslash, e]" "unescape_char e = Some c" by blast
    then show ?thesis using Cons rest split by (simp add: backslash_def dquote_def)
  qed
qed

lemma strip_prefix_append: "strip_prefix p (p @ s) = Some s"
  by (induction p) auto

lemma split_lines_acc_line:
  "newline \<notin> set l \<Longrightarrow>
     split_lines_acc cur (l @ newline # rest) = (rev cur @ l) # split_lines_acc [] rest"
  by (induction l arbitrary: cur) auto

lemma split_lines_print_item:
  "split_lines_acc [] (print_item it @ rest) = item_lines it @ split_lines_acc [] rest"
proof -
  let ?l2 = "''  name: '' @ [dquote] @ c_escape (item_name it) @ [dquote]"
  let ?l3 = "''  id: '' @ show_int (item_id it)"
  have n1: "newline \<notin> set ''item {''" by (simp add: newline_def)
  have n2: "newline \<notin> set ?l2"
    using newline_notin_c_escape by (simp add: newline_def dquote_def)
  have n3: "newline \<notin> set ?l3"
    using newline_notin_show_int by (simp add: newline_def)
  have n4: "newline \<notin> set ''}''" by (simp add: newline_def)
  have "print_item it @ rest =
     ''item {'' @ newline # (?l2 @ newline # (?l3 @ newline # (''}'' @ newline # rest)))"
    by (simp add: print_item_def)
  then show ?thesis
    using split_lines_acc_line [OF n1, of "[]"] split_lines_acc_line [OF n2, of "[]"]
      split_lines_acc_line [OF n3, of "[]"] split_lines_acc_line [OF n4, of "[]"]
    by (simp add: item_lines_def)
qed

lemma split_lines_message: "split_lines (message_to_text msg) = concat (map item_lines msg)"
  unfolding split_lines_def message_to_text_def
  by (induction msg) (simp_all add: split_lines_print_item)

lemma parse_items_item_lines: "parse_items (concat (map item_lines msg)) = Some msg"
proof (induction msg)
  case Nil
  then show ?case by simp
next
  case (Cons it msg)
  have "parse_name_line (''  name: '' @ [dquote] @ c_escape (item_name it) @ [dquote]) = Some (item_name it)"
    using strip_prefix_append [of "''  name: '' @ [dquote]" "c_escape (item_name it) @ [dquote]"]
    by (simp add: parse_name_line_def unescape_quoted_c_escape)
  moreover have "parse_id_line (''  id: '' @ show_int (item_id it)) = Some (item_id it)"
    using strip_prefix_append [of "''  id: ''" "show_int (item_id it)"]
    by (simp add: parse_id_line_def parse_int_show_int)
  ultimately show ?case using Cons by (simp add: item_lines_def)
qed

lemma text_format_round_trip: "text_format_merge (message_to_text msg) = Inr msg"
  by (simp add: text_format_merge_def split_lines_message parse_items_item_lines)

section \<open>Ids, categories and the class count\<close>

lemma map_fst_enumerate: "map fst (enumerate k xs) = [k..k + int (length xs) - 1]"
proof (induction xs arbitrary: k)
  case Nil
  then show ?case by simp
next
  case (Cons x xs)
  have "[k..k + int (length (x # xs)) - 1] = k # [k + 1..k + 1 + int (length xs) - 1]"
    by (subst upto_rec1) (simp_all add: algebra_simps)
  then show ?case using Cons [of "k + 1"] by simp
qed

lemma map_snd_enumerate: "map snd (enumerate k xs) = xs"
  by (induction xs arbitrary: k) auto

lemma length_enumerate: "length (enumerate k xs) = length xs"
  by (induction xs arbitrary: k) auto

lemma build_label_map_ids: "map item_id (build_label_map cs) = [1..int (length cs)]"
proof -
  have "map item_id (build_label_map cs) = map fst (enumerate 1 cs)"
    by (simp add: build_label_map_def case_prod_unfold)
  then show ?thesis by (simp add: map_fst_enumerate)
qed

lemma build_label_map_names: "map item_name (build_label_map cs) = cs"
proof -
  have "map item_name (build_label_map cs) = map snd (enumerate 1 cs)"
    by (simp add: build_label_map_def case_prod_unfold)
  then show ?thesis by (simp add: map_snd_enumerate)
qed

lemma validate_positive_ids:
  "\<forall>it \<in> set lm. 0 < item_id it \<Longrightarrow> validate_label_map lm = Inr ()"
  by (induction lm) auto

lemma validate_build_label_map: "validate_label_map (build_label_map cs) = Inr ()"
proof (rule validate_positive_ids)
  have "set (map item_id (build_label_map cs)) = {1..int (length cs)}"
    by (simp add: build_label_map_ids)
  then show "\<forall>it \<in> set (build_label_map cs). 0 < item_id it"
    by (metis atLeastAtMost_iff image_eqI list.set_map zero_less_one less_le_trans)
qed

lemma convert_loop_enumerate:
  "0 < k \<Longrightarrow> \<forall>a \<in> set added. a < k \<Longrightarrow>
     convert_loop m (map (\<lambda>(i, name). StringIntLabelMapItem i name) (enumerate k cs)) added cats
       = cats @ filter (\<lambda>(i, name). i \<le> m) (enumerate k cs)"
proof (induction cs arbitrary: k added cats)
  case Nil
  then show ?case by simp
next
  case (Cons c cs)
  have notin: "k \<notin> set added" using Cons.prems by auto
  show ?case
  proof (cases "k \<le> m")
    case True
    have "\<forall>a \<in> set (added @ [k]). a < k + 1" using Cons.prems by auto
    then show ?thesis
      using Cons.IH [of "k + 1" "added @ [k]" "cats @ [(k, c)]"] Cons.prems True notin by simp
  next
    case False
    have "\<forall>a \<in> set added. a < k + 1" using Cons.prems by auto
    then show ?thesis
      using Cons.IH [of "k + 1" added cats] Cons.prems False by simp
  qed
qed

lemma convert_build_label_map:
  "convert_label_map_to_categories (build_label_map cs) m =
     filter (\<lambda>(i, name). i \<le> m) (enumerate 1 cs)"
  using convert_loop_enumerate [of 1 "[]" m cs "[]"]
  by (simp add: convert_label_map_to_categories_def build_label_map_def)

lemma keys_foldl_index:
  "distinct (map fst d) \<Longrightarrow>
     distinct (map fst
       (foldl (\<lambda>category_index cat. AList.update (fst cat) cat category_index) d cats)) \<and>
     fst ` set (foldl (\<lambda>category_index cat. AList.update (fst cat) cat category_index) d cats) =
       fst ` set d \<union> fst ` set cats"
proof (induction cats arbitrary: d)
  case Nil
  then show ?case by simp
next
  case (Cons cat cats)
  have "distinct (map fst (AList.update (fst cat) cat d))"
    using Cons.prems by (rule distinct_update)
  from Cons.IH [OF this] show ?case by (auto simp: dom_update)
qed

lemma length_create_category_index:
  "length (create_category_index cats) = card (fst ` set cats)"
proof -
  have "distinct (map fst (create_category_index cats))"
    and "fst ` set (create_category_index cats) = fst ` set cats"
    using keys_foldl_index [of "[]" cats] by (simp_all add: create_category_index_def)
  then show ?thesis
    by (metis distinct_card length_map list.set_map)
qed

lemma count_build_label_map:
  "length (create_category_index
      (convert_label_map_to_categories (build_label_map cs) 90)) = min (length cs) 90"
proof -
  let ?cats = "filter (\<lambda>(i, name). i \<le> 90) (enumerate 1 cs)"
  have "fst ` set ?cats = {i \<in> set (map fst (enumerate 1 cs)). i \<le> 90}"
    by (auto simp: image_iff)
  also have "\<dots> = {1..min (int (length cs)) 90}"
    by (auto simp: map_fst_enumerate)
  finally have "card (fst ` set ?cats) = nat (min (int (length cs)) 90)"
    by simp
  then show ?thesis
    using length_create_category_index [of ?cats]
    by (simp add: convert_build_label_map min_def)
qed

lemma convert_loop_ids:
  "\<forall>c \<in> set cats. 0 < fst c \<and> fst c \<le> m \<Longrightarrow>
     \<forall>c \<in> set (convert_loop m lm added cats). 0 < fst c \<and> fst c \<le> m"
proof (induction lm arbitrary: added cats)
  case Nil
  then show ?case by simp
next
  case (Cons it lm)
  show ?case
  proof (cases "0 < item_id it \<and> item_id it \<le> m \<and> item_id it \<notin> set added")
    case True
    have "\<forall>c \<in> set (cats @ [(item_id it, item_name it)]). 0 < fst c \<and> fst c \<le> m"
      using Cons.prems True by simp
    from Cons.IH [OF this] show ?thesis using True by simp
  next
    case False
    from Cons.IH [OF Cons.prems] have
      "\<forall>c \<in> set (convert_loop m lm added cats). 0 < fst c \<and> fst c \<le> m" .
    moreover have "convert_loop m (it # lm) added cats = convert_loop m lm added cats"
      using False by auto
    ultimately show ?thesis by simp
  qed
qed

lemma count_at_most_90:
  "length (create_category_index (convert_label_map_to_categories lm 90)) \<le> 90"
proof -
  have ids: "\<forall>c \<in> set (convert_label_map_to_categories lm 90). 0 < fst c \<and> fst c \<le> 90"
    unfolding convert_label_map_to_categories_def by (rule convert_loop_ids) simp
  have "fst ` set (convert_label_map_to_categories lm 90) \<subseteq> {1..90}"
  proof
    fix i assume "i \<in> fst ` set (convert_label_map_to_categories lm 90)"
    then obtain c where "c \<in> set (convert_label_map_to_categories lm 90)" "i = fst c"
      by blast
    then have "0 < i \<and> i \<le> 90" using ids by blast
    then show "i \<in> {1..90}" by simp
  qed
  then have "card (fst ` set (convert_label_map_to_categories lm 90)) \<le> card {1..90::int}"
    by (intro card_mono) simp_all
  then show ?thesis
    using length_create_category_index [of "convert_label_map_to_categories lm 90"] by simp
qed

lemma save_then_files:
  "save_mapping_to_file w mapping filepaths = Inr w' \<Longrightarrow>
     \<exists>path. filepaths ''label_map_file'' = Some path \<and> files w' path = Some mapping"
  by (auto simp: save_mapping_to_file_def getitem_def write_file_def
      split: option.splits if_splits)

lemma load_saved_label_map:
  assumes "save_mapping_to_file w (message_to_text (build_label_map cs)) filepaths = Inr w'"
  shows "load_labelmap w' (the (filepaths ''label_map_file'')) = Inr (build_label_map cs)"
  using save_then_files [OF assms]
  by (auto simp: load_labelmap_def text_format_round_trip validate_build_label_map)

lemma count_saved_label_map:
  assumes "save_mapping_to_file w (message_to_text (build_label_map cs)) filepaths = Inr w'"
  shows "get_num_classes_from_label_map w' filepaths = Inr (min (length cs) 90)"
proof -
  obtain path where p: "filepaths ''label_map_file'' = Some path"
    using save_then_files [OF assms] by blast
  then have "load_labelmap w' path = Inr (build_label_map cs)"
    using load_saved_label_map [OF assms] by simp
  then show ?thesis
    using p by (simp add: get_num_classes_from_label_map_def getitem_def count_build_label_map)
qed

lemma get_num_classes_bound:
  "get_num_classes_from_label_map w filepaths = Inr n \<Longrightarrow> n \<le> 90"
  using count_at_most_90
  by (auto simp: get_num_classes_from_label_map_def Let_def split: sum.splits)

section \<open>Facts about the example inputs\<close>

lemma sublist_ConsI: "sublist xs ys \<Longrightarrow> sublist xs (y # ys)"
  by (simp add: sublist_Cons_right)

lemma sublist_self_append: "sublist xs (xs @ ss)"
  using sublist_appendI [of xs "[]" ss] by simp

lemma set_filenames_example:
  "set_filenames example_base_models ''run1'' ''ssd_mobilenet'' = Inr fp \<Longrightarrow>
     fp ''pipeline_file'' = Some ''/tf/models/research/deploy/ssd_mobilenet.config''"
  by (auto simp: set_filenames_def example_base_models_def example_model_def getitem_def)

lemma run1_not_in_pipeline_file:
  "\<not> sublist ''run1'' ''/tf/models/research/deploy/ssd_mobilenet.config''"
  by (simp add: sublist_code prefix_code)

lemma run1_filepaths_lookup:
  "run1_filepaths ''val_export_dir'' = Some ''/tf/dataset-export/run1/val/''"
  "run1_filepaths ''train_export_dir'' = Some ''/tf/dataset-export/run1/train/''"
  "run1_filepaths ''label_map_file'' = Some ''/tf/dataset-export/run1/label_map.pbtxt''"
  by (simp_all add: run1_filepaths_def set_filenames_def example_base_models_def
      example_model_def getitem_def)

lemma os_dirname_label_map:
  "os_dirname ''/tf/dataset-export/run1/label_map.pbtxt'' = ''/tf/dataset-export/run1''"
  by (simp add: os_dirname_def)

lemma match_tags_training:
  "match_tags ''training'' (map (\<lambda>x. training_sample (f x) (g x)) xs) =
     map (\<lambda>x. training_sample (f x) (g x)) xs"
  by (induction xs) (simp_all add: match_tags_def training_sample_def)

lemma first_occurrences_distinct: "distinct xs \<Longrightarrow> first_occurrences xs = xs"
proof (induction xs)
  case Nil
  then show ?case by simp
next
  case (Cons x xs)
  then have "filter (\<lambda>y. y \<noteq> x) xs = xs" by (auto intro: filter_True)
  then show ?case using Cons by simp
qed

lemma distinct_many_labels: "distinct many_labels" "length many_labels = 91"
  by (simp_all add: many_labels_def distinct_map inj_on_def)

lemma scan_samples_class_names:
  "create_list_of_class_names view label_field =
     first_occurrences (labels_in_scan_order view label_field)"
  by (simp add: create_list_of_class_names_def scan_samples_eq)

lemma world_91_class_names:
  "create_list_of_class_names
     (seeded_shuffle world_91 2021 (match_tags ''training'' (the (datasets world_91 ''planes''))))
     ''detections'' = many_labels"
proof -
  have "labels_in_scan_order
          [training_sample ''s1.jpg'' (Some (map Detection many_labels))] ''detections'' =
        many_labels"
    by (simp add: labels_in_scan_order_def training_sample_def comp_def)
  then show ?thesis
    using scan_samples_class_names first_occurrences_distinct [OF distinct_many_labels(1)]
    by (simp add: world_91_def example_world_def match_tags_def training_sample_def)
qed

lemma cat_dog_class_names:
  "create_list_of_class_names cat_dog_cat ''detections'' = [''cat'', ''dog'']"
  by (simp add: create_list_of_class_names_def cat_dog_cat_def training_sample_def)

lemma world_cat_dog_view:
  "seeded_shuffle world_cat_dog 2021
     (match_tags ''training'' (the (datasets world_cat_dog ''planes''))) = cat_dog_cat"
  by (simp add: world_cat_dog_def example_world_def match_tags_def cat_dog_cat_def
      training_sample_def)

lemma world_cat_dog_mapping:
  "create_detection_mapping world_cat_dog ''planes'' ''detections'' =
     Inr (message_to_text (build_label_map [''cat'', ''dog'']))"
proof -
  have "datasets world_cat_dog ''planes'' = Some (rev cat_dog_cat)"
    by (simp add: world_cat_dog_def example_world_def)
  then show ?thesis
    using world_cat_dog_view cat_dog_class_names
    by (simp add: create_detection_mapping_def load_dataset_def Let_def)
qed

lemma world_cat_dog_save:
  "\<exists>w'. save_mapping_to_file world_cat_dog
            (message_to_text (build_label_map [''cat'', ''dog''])) run1_filepaths = Inr w'"
  by (simp add: save_mapping_to_file_def getitem_def run1_filepaths_lookup write_file_def
      os_dirname_label_map world_cat_dog_def example_world_def)

lemma same_string_result:
  "set_filenames same_string_base_models ''run1'' ''ssd_mobilenet'' = Inr fp \<Longrightarrow>
     fp ''pretrained_checkpoint'' = Some ''ssd_mobilenet'' \<and>
     fp ''base_pipeline_file'' = Some ''ssd_mobilenet''"
  by (auto simp: set_filenames_def same_string_base_models_def same_string_model_def getitem_def)

lemma not_pairwise_distinctI:
  "k1 \<in> dom fp \<Longrightarrow> k2 \<in> dom fp \<Longrightarrow> k1 \<noteq> k2 \<Longrightarrow> fp k1 = fp k2 \<Longrightarrow>
     \<not> paths_pairwise_distinct fp"
  unfolding paths_pairwise_distinct_def by blast

lemma not_all_containI:
  "fp k = Some p \<Longrightarrow> \<not> sublist training_name p \<Longrightarrow>
     \<not> all_paths_contain training_name fp"
  unfolding all_paths_contain_def ran_def by blast

lemma prefixed_differs: "p \<noteq> [] \<Longrightarrow> p @ s \<noteq> s"
  by simp

section \<open>Claims about the class-name list and the label map\<close>

text \<open>
  Claim C2.  For every sequence of samples and every label field, the list built by
  \<open>_create_list_of_class_names\<close> is the list of the labels of the samples whose field
  is not null, in scan order, each label kept at its first occurrence: it has no
  duplicates, also when a label comes back after other labels, and it holds exactly
  the labels met.
\<close>

theorem class_names_first_occurrences:
  "create_list_of_class_names view label_field =
     first_occurrences (labels_in_scan_order view label_field)
   \<and> distinct (create_list_of_class_names view label_field)
   \<and> set (create_list_of_class_names view label_field) =
       set (labels_in_scan_order view label_field)"
  by (simp add: create_list_of_class_names_def scan_samples_eq
      distinct_first_occurrences set_first_occurrences)

text \<open>
  Claim C3.  For every dataset of the store and every label field,
  \<open>create_detection_mapping\<close> returns the text of the label map built from the
  class-name list of the shuffled training view: the map gives the classes the ids 1
  to the length of the list, in list order, and the text holds exactly one entry
  with that id and that name per class, since reading the text gives the items back.
  The same holds of the label map of every class-name list.  For the detections cat,
  dog, cat in scan order the class names are cat, dog, and the map is 1 for cat and
  2 for dog.
\<close>

theorem label_map_ids_from_one:
  assumes "datasets w dataset_name = Some dataset"
    and "class_names = create_list_of_class_names
           (seeded_shuffle w 2021 (match_tags ''training'' dataset)) label_field"
  shows "create_detection_mapping w dataset_name label_field =
           Inr (message_to_text (build_label_map class_names))
       \<and> text_format_merge (message_to_text (build_label_map class_names)) =
           Inr (build_label_map class_names)
       \<and> map item_id (build_label_map class_names) = [1..int (length class_names)]
       \<and> map item_name (build_label_map class_names) = class_names
       \<and> map item_id (build_label_map cs) = [1..int (length cs)]
       \<and> map item_name (build_label_map cs) = cs
       \<and> text_format_merge (message_to_text (build_label_map cs)) = Inr (build_label_map cs)
       \<and> create_list_of_class_names cat_dog_cat ''detections'' = [''cat'', ''dog'']
       \<and> build_label_map [''cat'', ''dog''] =
           [StringIntLabelMapItem 1 ''cat'', StringIntLabelMapItem 2 ''dog'']"
proof -
  have "create_detection_mapping w dataset_name label_field =
          Inr (message_to_text (build_label_map class_names))"
    using assms by (simp add: create_detection_mapping_def load_dataset_def Let_def)
  moreover have "build_label_map [''cat'', ''dog''] =
        [StringIntLabelMapItem 1 ''cat'', StringIntLabelMapItem 2 ''dog'']"
    by (simp add: build_label_map_def)
  ultimately show ?thesis
    by (simp add: build_label_map_ids build_label_map_names text_format_round_trip
        cat_dog_class_names)
qed

theorem label_map_ids_from_one_witness:
  "datasets world_cat_dog ''planes'' = Some (rev cat_dog_cat)
   \<and> [''cat'', ''dog''] = create_list_of_class_names
         (seeded_shuffle world_cat_dog 2021 (match_tags ''training'' (rev cat_dog_cat)))
         ''detections''
   \<and> create_detection_mapping world_cat_dog ''planes'' ''detections'' =
       Inr (message_to_text [StringIntLabelMapItem 1 ''cat'', StringIntLabelMapItem 2 ''dog''])
   \<and> text_format_merge
         (message_to_text [StringIntLabelMapItem 1 ''cat'', StringIntLabelMapItem 2 ''dog'']) =
       Inr [StringIntLabelMapItem 1 ''cat'', StringIntLabelMapItem 2 ''dog'']
   \<and> map item_id [StringIntLabelMapItem 1 ''cat'', StringIntLabelMapItem 2 ''dog''] = [1, 2]"
proof -
  have d: "datasets world_cat_dog ''planes'' = Some (rev cat_dog_cat)"
    by (simp add: world_cat_dog_def example_world_def)
  have c: "[''cat'', ''dog''] = create_list_of_class_names
      (seeded_shuffle world_cat_dog 2021 (match_tags ''training'' (rev cat_dog_cat)))
      ''detections''"
    using world_cat_dog_view cat_dog_class_names d by simp
  note r = label_map_ids_from_one [OF d c, of "[]"]
  from r have b: "build_label_map [''cat'', ''dog''] =
      [StringIntLabelMapItem 1 ''cat'', StringIntLabelMapItem 2 ''dog'']"
    by blast
  from r have "create_detection_mapping world_cat_dog ''planes'' ''detections'' =
      Inr (message_to_text (build_label_map [''cat'', ''dog'']))"
    by blast
  then have r1: "create_detection_mapping world_cat_dog ''planes'' ''detections'' =
      Inr (message_to_text [StringIntLabelMapItem 1 ''cat'', StringIntLabelMapItem 2 ''dog''])"
    using b by simp
  from r have "text_format_merge (message_to_text (build_label_map [''cat'', ''dog''])) =
      Inr (build_label_map [''cat'', ''dog''])"
    by blast
  then have r2: "text_format_merge
      (message_to_text [StringIntLabelMapItem 1 ''cat'', StringIntLabelMapItem 2 ''dog'']) =
      Inr [StringIntLabelMapItem 1 ''cat'', StringIntLabelMapItem 2 ''dog'']"
    using b by simp
  have r3: "map item_id [StringIntLabelMapItem 1 ''cat'', StringIntLabelMapItem 2 ''dog''] =
      [1, 2]"
    by simp
  show ?thesis by (intro conjI d c r1 r2 r3)
qed

text \<open>
  Claim C6.  The specification expects \<open>get_num_classes_from_label_map\<close> to return,
  for every label map produced by \<open>create_detection_mapping\<close> and written by
  \<open>save_mapping_to_file\<close>, the number of classes of the map in memory; the docstring
  of the function says that it retrieves the number of classes from the label map
  file.  For a label map of 91 classes the function returns 90, since it converts the
  map with \<open>max_num_classes = 90\<close>.
\<close>

theorem round_trip_count_counterexample:
  "get_num_classes_from_label_map
     (projr (save_mapping_to_file world_91
        (projr (create_detection_mapping world_91 ''planes'' ''detections'')) run1_filepaths))
     run1_filepaths = Inr 90
   \<and> length (build_label_map (create_list_of_class_names
        (seeded_shuffle world_91 2021 (match_tags ''training'' (the (datasets world_91 ''planes''))))
        ''detections'')) = 91"
proof -
  have m: "create_detection_mapping world_91 ''planes'' ''detections'' =
           Inr (message_to_text (build_label_map many_labels))"
    using world_91_class_names
    by (simp add: create_detection_mapping_def load_dataset_def Let_def world_91_def example_world_def)
  have "\<exists>w'. save_mapping_to_file world_91 (message_to_text (build_label_map many_labels))
          run1_filepaths = Inr w'"
    by (simp add: save_mapping_to_file_def getitem_def run1_filepaths_lookup write_file_def
        os_dirname_label_map world_91_def example_world_def)
  then obtain w' where s: "save_mapping_to_file world_91
      (message_to_text (build_label_map many_labels)) run1_filepaths = Inr w'" by blast
  have "get_num_classes_from_label_map w' run1_filepaths = Inr (min (length many_labels) 90)"
    using count_saved_label_map [OF s] .
  moreover have "length (build_label_map many_labels) = 91"
    by (simp add: build_label_map_def length_enumerate distinct_many_labels)
  ultimately show ?thesis using m s world_91_class_names by (simp add: distinct_many_labels)
qed

text \<open>
  What does hold of every written label map: reading the file back gives the items
  of the map in memory, and the count is the number of classes up to 90.
\<close>

lemma label_map_round_trip:
  assumes "create_detection_mapping w dataset_name label_field = Inr mapping"
    and "save_mapping_to_file w mapping filepaths = Inr w'"
    and "class_names = create_list_of_class_names
           (seeded_shuffle w 2021 (match_tags ''training'' (the (datasets w dataset_name))))
           label_field"
  shows "load_labelmap w' (the (filepaths ''label_map_file'')) = Inr (build_label_map class_names)
       \<and> map item_id (build_label_map class_names) = [1..int (length class_names)]
       \<and> map item_name (build_label_map class_names) = class_names
       \<and> get_num_classes_from_label_map w' filepaths =
           Inr (if length class_names \<le> 90 then length class_names else 90)"
proof -
  have m: "mapping = message_to_text (build_label_map class_names)"
    using assms(1,3)
    by (auto simp: create_detection_mapping_def load_dataset_def Let_def split: option.splits)
  have s: "save_mapping_to_file w (message_to_text (build_label_map class_names)) filepaths =
           Inr w'"
    using assms(2) m by simp
  show ?thesis
    using load_saved_label_map [OF s] count_saved_label_map [OF s]
    by (simp add: build_label_map_ids build_label_map_names min_def)
qed

lemma label_map_round_trip_example:
  "create_detection_mapping world_cat_dog ''planes'' ''detections'' =
     Inr (message_to_text (build_label_map [''cat'', ''dog'']))
   \<and> (\<exists>w'. save_mapping_to_file world_cat_dog
              (message_to_text (build_label_map [''cat'', ''dog''])) run1_filepaths = Inr w'
          \<and> load_labelmap w' (the (run1_filepaths ''label_map_file'')) =
              Inr (build_label_map [''cat'', ''dog''])
          \<and> get_num_classes_from_label_map w' run1_filepaths = Inr 2)"
proof -
  obtain w' where s: "save_mapping_to_file world_cat_dog
      (message_to_text (build_label_map [''cat'', ''dog''])) run1_filepaths = Inr w'"
    using world_cat_dog_save by blast
  have c: "[''cat'', ''dog''] = create_list_of_class_names
      (seeded_shuffle world_cat_dog 2021
        (match_tags ''training'' (the (datasets world_cat_dog ''planes'')))) ''detections''"
    using world_cat_dog_view cat_dog_class_names by simp
  from label_map_round_trip [OF world_cat_dog_mapping s c] s world_cat_dog_mapping
  show ?thesis by auto
qed

text \<open>
  Claim C10.  \<open>get_num_classes_from_label_map\<close> converts the label map with
  \<open>max_num_classes = 90\<close>: whatever the file holds, the count it returns is at most
  90; and the count read back from a written label map equals the length of the
  class-name list exactly when the list has at most 90 entries.
\<close>

theorem class_count_capped_at_90:
  "(get_num_classes_from_label_map w filepaths = Inr n \<longrightarrow> n \<le> 90)
   \<and> length (map fst (create_category_index (convert_label_map_to_categories label_map 90)))
       \<le> 90
   \<and> (save_mapping_to_file w0 (message_to_text (build_label_map class_names)) filepaths0 =
        Inr w1 \<longrightarrow>
      (get_num_classes_from_label_map w1 filepaths0 = Inr (length class_names)) =
      (length class_names \<le> 90))"
proof (intro conjI impI)
  assume "get_num_classes_from_label_map w filepaths = Inr n"
  then show "n \<le> 90" by (rule get_num_classes_bound)
next
  show "length (map fst (create_category_index (convert_label_map_to_categories label_map 90)))
          \<le> 90"
    using count_at_most_90 [of label_map] by simp
next
  assume "save_mapping_to_file w0 (message_to_text (build_label_map class_names)) filepaths0 =
          Inr w1"
  from count_saved_label_map [OF this]
  show "(get_num_classes_from_label_map w1 filepaths0 = Inr (length class_names)) =
        (length class_names \<le> 90)"
    by auto
qed

theorem class_count_capped_at_90_witness:
  "\<exists>w1. save_mapping_to_file world_91 (message_to_text (build_label_map many_labels))
           run1_filepaths = Inr w1
        \<and> get_num_classes_from_label_map w1 run1_filepaths = Inr 90
        \<and> (90::nat) \<le> 90
        \<and> get_num_classes_from_label_map w1 run1_filepaths \<noteq> Inr (length many_labels)
        \<and> \<not> length many_labels \<le> 90"
proof -
  have "\<exists>w1. save_mapping_to_file world_91 (message_to_text (build_label_map many_labels))
          run1_filepaths = Inr w1"
    by (simp add: save_mapping_to_file_def getitem_def run1_filepaths_lookup write_file_def
        os_dirname_label_map world_91_def example_world_def)
  then obtain w1 where s: "save_mapping_to_file world_91
      (message_to_text (build_label_map many_labels)) run1_filepaths = Inr w1" by blast
  have n: "get_num_classes_from_label_map w1 run1_filepaths = Inr 90"
    using count_saved_label_map [OF s] by (simp add: distinct_many_labels)
  from class_count_capped_at_90 [of w1 run1_filepaths 90 "[]" world_91 many_labels
      run1_filepaths w1] s n
  show ?thesis by (auto simp: distinct_many_labels)
qed

section \<open>Claims about set_filenames and the driver\<close>

text \<open>
  Claim C4, as stated: for every training name and every key of \<open>base_models\<close>, the
  paths returned by \<open>set_filenames\<close> are pairwise distinct and each contains the
  training name.  The pipeline file of the example model does not contain the
  training name \<open>run1\<close>; and for the base model whose three fields hold the same
  string, the entries \<open>pretrained_checkpoint\<close> and \<open>base_pipeline_file\<close> are the same
  string.
\<close>

theorem set_filenames_paths_counterexample:
  "\<not> isl (set_filenames example_base_models ''run1'' ''ssd_mobilenet'')
   \<and> \<not> all_paths_contain ''run1''
         (projr (set_filenames example_base_models ''run1'' ''ssd_mobilenet''))
   \<and> \<not> isl (set_filenames same_string_base_models ''run1'' ''ssd_mobilenet'')
   \<and> \<not> paths_pairwise_distinct
         (projr (set_filenames same_string_base_models ''run1'' ''ssd_mobilenet''))"
proof -
  obtain fp where fp: "set_filenames example_base_models ''run1'' ''ssd_mobilenet'' = Inr fp"
    by (simp add: set_filenames_def example_base_models_def example_model_def getitem_def)
  have "fp ''pipeline_file'' = Some ''/tf/models/research/deploy/ssd_mobilenet.config''"
    using fp by (rule set_filenames_example)
  then have a: "\<not> all_paths_contain ''run1'' fp"
    using run1_not_in_pipeline_file by (rule not_all_containI)
  obtain fq where fq: "set_filenames same_string_base_models ''run1'' ''ssd_mobilenet'' = Inr fq"
    by (simp add: set_filenames_def same_string_base_models_def same_string_model_def
        getitem_def)
  have v: "fq ''pretrained_checkpoint'' = Some ''ssd_mobilenet''"
    "fq ''base_pipeline_file'' = Some ''ssd_mobilenet''"
    using same_string_result [OF fq] by simp_all
  have k: "''pretrained_checkpoint'' \<noteq> ''base_pipeline_file''" by simp
  have "''pretrained_checkpoint'' \<in> dom fq" "''base_pipeline_file'' \<in> dom fq"
    "fq ''pretrained_checkpoint'' = fq ''base_pipeline_file''"
    using v by (simp_all add: domIff)
  then have b: "\<not> paths_pairwise_distinct fq"
    using k not_pairwise_distinctI by blast
  show ?thesis unfolding fp fq using a b by simp
qed

text \<open>
  Claim C4, amended.  For every training name and every key of \<open>base_models\<close> whose
  entry has the three fields, \<open>set_filenames\<close> returns a dictionary with eleven keys.
  Its seven paths built from the training name (the record files, the export
  directories, the label map file and the model directory) are pairwise distinct,
  differ from \<open>pipeline_file\<close> and from \<open>fine_tune_checkpoint\<close>, and each contains
  the training name.  \<open>pipeline_file\<close> differs from \<open>base_pipeline_file\<close>, and it is
  \<open>fine_tune_checkpoint\<close> only when the base pipeline file is the model name followed
  by \<open>/checkpoint/ckpt-0\<close>.  The other four entries are built from the base model
  alone: \<open>pretrained_checkpoint\<close> and \<open>base_pipeline_file\<close> are its strings as they
  are.
\<close>

theorem set_filenames_run_paths:
  assumes "base_models chosen_model = Some model"
    and "model ''base_pipeline_file'' = Some bpf"
    and "model ''model_name'' = Some mn"
    and "model ''pretrained_checkpoint'' = Some pc"
  shows "\<exists>fp. set_filenames base_models training_name chosen_model = Inr fp
           \<and> dom fp = set (run_path_keys @ base_model_keys)
           \<and> distinct (map (\<lambda>k. the (fp k)) (run_path_keys @ [''pipeline_file'']))
           \<and> distinct (map (\<lambda>k. the (fp k)) (run_path_keys @ [''fine_tune_checkpoint'']))
           \<and> fp ''pipeline_file'' \<noteq> fp ''base_pipeline_file''
           \<and> (fp ''pipeline_file'' = fp ''fine_tune_checkpoint'') =
               (bpf = mn @ ''/checkpoint/ckpt-0'')
           \<and> (\<forall>k \<in> set run_path_keys. sublist training_name (the (fp k)))
           \<and> fp ''pretrained_checkpoint'' = Some pc
           \<and> fp ''pipeline_file'' = Some (''/tf/models/research/deploy/'' @ bpf)
           \<and> fp ''fine_tune_checkpoint'' =
                Some (''/tf/models/research/deploy/'' @ mn @ ''/checkpoint/ckpt-0'')
           \<and> fp ''base_pipeline_file'' = Some bpf"
proof -
  let ?fp = "[''train_record_file'' \<mapsto>
                 ''/tf/dataset-export/'' @ training_name @ ''/train/tf.records'',
               ''val_record_file'' \<mapsto>
                 ''/tf/dataset-export/'' @ training_name @ ''/val/tf.records'',
               ''val_export_dir'' \<mapsto> ''/tf/dataset-export/'' @ training_name @ ''/val/'',
               ''train_export_dir'' \<mapsto> ''/tf/dataset-export/'' @ training_name @ ''/train/'',
               ''model_export_dir'' \<mapsto> ''/tf/model-export/'' @ training_name @ ''/'',
               ''label_map_file'' \<mapsto>
                 ''/tf/dataset-export/'' @ training_name @ ''/label_map.pbtxt'',
               ''model_dir'' \<mapsto> ''/tf/training/'' @ training_name @ ''/'',
               ''pretrained_checkpoint'' \<mapsto> pc,
               ''pipeline_file'' \<mapsto> ''/tf/models/research/deploy/'' @ bpf,
               ''fine_tune_checkpoint'' \<mapsto>
                 ''/tf/models/research/deploy/'' @ mn @ ''/checkpoint/ckpt-0'',
               ''base_pipeline_file'' \<mapsto> bpf]"
  have res: "set_filenames base_models training_name chosen_model = Inr ?fp"
    using assms by (simp add: set_filenames_def getitem_def)
  have d: "dom ?fp = set (run_path_keys @ base_model_keys)"
    by (auto simp: run_path_keys_def base_model_keys_def)
  have vals1: "map (\<lambda>k. the (?fp k)) (run_path_keys @ [''pipeline_file'']) =
      [''/tf/dataset-export/'' @ training_name @ ''/train/tf.records'',
       ''/tf/dataset-export/'' @ training_name @ ''/val/tf.records'',
       ''/tf/dataset-export/'' @ training_name @ ''/val/'',
       ''/tf/dataset-export/'' @ training_name @ ''/train/'',
       ''/tf/model-export/'' @ training_name @ ''/'',
       ''/tf/dataset-export/'' @ training_name @ ''/label_map.pbtxt'',
       ''/tf/training/'' @ training_name @ ''/'',
       ''/tf/models/research/deploy/'' @ bpf]"
    by (simp add: run_path_keys_def)
  have dist1: "distinct (map (\<lambda>k. the (?fp k)) (run_path_keys @ [''pipeline_file'']))"
    unfolding vals1 by simp
  have vals2: "map (\<lambda>k. the (?fp k)) (run_path_keys @ [''fine_tune_checkpoint'']) =
      [''/tf/dataset-export/'' @ training_name @ ''/train/tf.records'',
       ''/tf/dataset-export/'' @ training_name @ ''/val/tf.records'',
       ''/tf/dataset-export/'' @ training_name @ ''/val/'',
       ''/tf/dataset-export/'' @ training_name @ ''/train/'',
       ''/tf/model-export/'' @ training_name @ ''/'',
       ''/tf/dataset-export/'' @ training_name @ ''/label_map.pbtxt'',
       ''/tf/training/'' @ training_name @ ''/'',
       ''/tf/models/research/deploy/'' @ mn @ ''/checkpoint/ckpt-0'']"
    by (simp add: run_path_keys_def)
  have dist2: "distinct (map (\<lambda>k. the (?fp k)) (run_path_keys @ [''fine_tune_checkpoint'']))"
    unfolding vals2 by simp
  have "''/tf/models/research/deploy/'' @ bpf \<noteq> bpf"
    by (rule prefixed_differs) simp
  then have ne: "?fp ''pipeline_file'' \<noteq> ?fp ''base_pipeline_file''"
    by simp
  have sub: "\<forall>k \<in> set run_path_keys. sublist training_name (the (?fp k))"
    by (auto simp: run_path_keys_def intro!: sublist_ConsI sublist_self_append)
  have same: "(?fp ''pipeline_file'' = ?fp ''fine_tune_checkpoint'') =
      (bpf = mn @ ''/checkpoint/ckpt-0'')"
    by simp
  have others: "?fp ''pretrained_checkpoint'' = Some pc"
    "?fp ''pipeline_file'' = Some (''/tf/models/research/deploy/'' @ bpf)"
    "?fp ''fine_tune_checkpoint'' =
       Some (''/tf/models/research/deploy/'' @ mn @ ''/checkpoint/ckpt-0'')"
    "?fp ''base_pipeline_file'' = Some bpf"
    by simp_all
  show ?thesis
    by (rule exI [of _ ?fp]) (intro conjI res d dist1 dist2 ne same sub others)
qed

theorem set_filenames_run_paths_witness:
  "example_base_models ''ssd_mobilenet'' = Some example_model
   \<and> example_model ''base_pipeline_file'' = Some ''ssd_mobilenet.config''
   \<and> example_model ''model_name'' = Some ''ssd_mobilenet''
   \<and> example_model ''pretrained_checkpoint'' = Some ''ssd_mobilenet.tar.gz''
   \<and> (\<exists>fp. set_filenames example_base_models ''run1'' ''ssd_mobilenet'' = Inr fp
         \<and> distinct (map (\<lambda>k. the (fp k)) (run_path_keys @ [''pipeline_file'']))
         \<and> distinct (map (\<lambda>k. the (fp k)) (run_path_keys @ [''fine_tune_checkpoint'']))
         \<and> (\<forall>k \<in> set run_path_keys. sublist ''run1'' (the (fp k)))
         \<and> fp ''pipeline_file'' = Some ''/tf/models/research/deploy/ssd_mobilenet.config'')"
proof -
  have h1: "example_base_models ''ssd_mobilenet'' = Some example_model"
    by (simp add: example_base_models_def)
  have h2: "example_model ''base_pipeline_file'' = Some ''ssd_mobilenet.config''"
    by (simp add: example_model_def)
  have h3: "example_model ''model_name'' = Some ''ssd_mobilenet''"
    by (simp add: example_model_def)
  have h4: "example_model ''pretrained_checkpoint'' = Some ''ssd_mobilenet.tar.gz''"
    by (simp add: example_model_def)
  from set_filenames_run_paths [where base_models = example_base_models
      and chosen_model = "''ssd_mobilenet''" and model = example_model
      and training_name = "''run1''", OF h1 h2 h3 h4]
  obtain fp where "set_filenames example_base_models ''run1'' ''ssd_mobilenet'' = Inr fp"
    "distinct (map (\<lambda>k. the (fp k)) (run_path_keys @ [''pipeline_file'']))"
    "distinct (map (\<lambda>k. the (fp k)) (run_path_keys @ [''fine_tune_checkpoint'']))"
    "\<forall>k \<in> set run_path_keys. sublist ''run1'' (the (fp k))"
    "fp ''pipeline_file'' = Some (''/tf/models/research/deploy/'' @ ''ssd_mobilenet.config'')"
    by blast
  then show ?thesis using h1 h2 h3 h4 by auto
qed

text \<open>
  Claim C8.  For every \<open>base_models\<close> and every \<open>chosen_model\<close> that is not one of its
  keys, \<open>set_filenames\<close> raises \<open>KeyError\<close> and returns no dictionary; the driver
  does not catch it, so its caller receives the same error.
\<close>

theorem unknown_model_key_error:
  assumes "chosen_model \<notin> dom base_models"
  shows "set_filenames base_models training_name chosen_model = Inl (KeyError chosen_model)
       \<and> (\<not> isdir w (''/tf/ml-model/dataset-export/'' @ training_name)
            \<and> files w ''base_models.json'' = Some txt \<and> json_load txt = Inr base_models
          \<longrightarrow> train_detection_model json_load w training_name chosen_model =
                ([OpenRead ''base_models.json''], Inl (KeyError chosen_model)))"
proof -
  have "base_models chosen_model = None"
    using assms by (simp add: domIff)
  then have "set_filenames base_models training_name chosen_model = Inl (KeyError chosen_model)"
    by (simp add: set_filenames_def getitem_def)
  then show ?thesis
    by (simp add: train_detection_model_def load_base_models_json_def)
qed

theorem unknown_model_key_error_witness:
  "''yolo'' \<notin> dom example_base_models
   \<and> \<not> isdir (example_world [] []) (''/tf/ml-model/dataset-export/'' @ ''run1'')
   \<and> files (example_world [] []) ''base_models.json'' = Some ''{}''
   \<and> example_json_load ''{}'' = Inr example_base_models
   \<and> set_filenames example_base_models ''run1'' ''yolo'' = Inl (KeyError ''yolo'')
   \<and> train_detection_model example_json_load (example_world [] []) ''run1'' ''yolo'' =
       ([OpenRead ''base_models.json''], Inl (KeyError ''yolo''))"
proof -
  have h: "''yolo'' \<notin> dom example_base_models"
    by (simp add: example_base_models_def)
  have g: "\<not> isdir (example_world [] []) (''/tf/ml-model/dataset-export/'' @ ''run1'')"
    "files (example_world [] []) ''base_models.json'' = Some ''{}''"
    "example_json_load ''{}'' = Inr example_base_models"
    by (simp_all add: example_world_def example_json_load_def)
  from unknown_model_key_error [OF h, of "''run1''" "example_world [] []" "''{}''"
      example_json_load] h g
  show ?thesis by simp
qed

text \<open>
  Claim C7.  The specification expects the driver to log an error and exit with
  status 1 whenever the export root of the run exists, so that a second call with a
  name already used fails before any side effect; the comment on the guard says that
  it enforces a unique model name.  The guard tests
  \<open>/tf/ml-model/dataset-export/\<close> followed by the name, whereas \<open>set_filenames\<close>
  puts the exports of the run under \<open>/tf/dataset-export/\<close> followed by the name.  With
  the export root of \<open>run1\<close> and its two export directories present, the driver
  opens \<open>base_models.json\<close> and returns normally.
\<close>

theorem guard_tests_another_directory:
  "isdir (example_world [] [''/tf/dataset-export/run1'', ''/tf/dataset-export/run1/val'',
       ''/tf/dataset-export/run1/train'']) ''/tf/dataset-export/run1''
   \<and> run1_filepaths ''val_export_dir'' = Some ''/tf/dataset-export/run1/val/''
   \<and> run1_filepaths ''train_export_dir'' = Some ''/tf/dataset-export/run1/train/''
   \<and> train_detection_model example_json_load
       (example_world [] [''/tf/dataset-export/run1'', ''/tf/dataset-export/run1/val'',
          ''/tf/dataset-export/run1/train'']) ''run1'' ''ssd_mobilenet'' =
       ([OpenRead ''base_models.json''], Inr ())"
  by (simp add: run1_filepaths_lookup train_detection_model_def load_base_models_json_def
      example_world_def example_json_load_def set_filenames_def example_base_models_def
      example_model_def getitem_def)

text \<open>
  What the guard does: when the directory that it tests exists, the error log is the
  only event of the driver and it exits with status 1.
\<close>

lemma duplicate_name_exits:
  assumes "isdir w (''/tf/ml-model/dataset-export/'' @ training_name)"
  shows "train_detection_model json_load w training_name chosen_model =
           ([LogError ''Must use unique model name.''], Inl (SystemExit 1))"
  using assms by (simp add: train_detection_model_def)

lemma duplicate_name_exits_example:
  "isdir (example_world [] [''/tf/ml-model/dataset-export/run1''])
     (''/tf/ml-model/dataset-export/'' @ ''run1'')
   \<and> train_detection_model example_json_load
       (example_world [] [''/tf/ml-model/dataset-export/run1'']) ''run1'' ''ssd_mobilenet'' =
       ([LogError ''Must use unique model name.''], Inl (SystemExit 1))"
proof -
  have h: "isdir (example_world [] [''/tf/ml-model/dataset-export/run1''])
             (''/tf/ml-model/dataset-export/'' @ ''run1'')"
    by (simp add: example_world_def)
  from duplicate_name_exits [OF h] h show ?thesis by simp
qed

section \<open>Claims about the split\<close>

lemma bitlen_numeral:
  "bitlen (numeral k) = 1 + bitlen (numeral k div 2)" "bitlen 0 = 0" "bitlen 1 = 1"
  by (simp_all add: bitlen.simps)

lemma float_literal_08: "float_literal 8 10 = Finite 7205759403792794 (- 53)"
  by (simp add: float_literal_def round_ratio_def bitlen_numeral Let_def)

lemma float_literal_05: "float_literal 1 2 = Finite 4503599627370496 (- 53)"
  by (simp add: float_literal_def round_ratio_def bitlen_numeral Let_def)

lemma one_minus_08:
  "float_sub (Finite 1 0) (Finite 7205759403792794 (- 53)) = Finite 7205759403792792 (- 55)"
  by (simp add: round_dyadic_def round_ratio_def bitlen_numeral Let_def)

lemma one_minus_05:
  "float_sub (Finite 1 0) (Finite 4503599627370496 (- 53)) = Finite 4503599627370496 (- 53)"
  by (simp add: round_dyadic_def round_ratio_def bitlen_numeral Let_def)

lemma split_lengths_10:
  "split_lengths 10 (Finite 7205759403792794 (- 53)) = Inr (8, 1)"
  unfolding split_lengths_def one_minus_08
  by (simp add: float_of_int_def round_dyadic_def round_ratio_def bitlen_numeral Let_def)

lemma split_lengths_11:
  "split_lengths 11 (Finite 7205759403792794 (- 53)) = Inr (8, 2)"
  unfolding split_lengths_def one_minus_08
  by (simp add: float_of_int_def round_dyadic_def round_ratio_def bitlen_numeral Let_def)

lemma split_lengths_2_half:
  "split_lengths 2 (Finite 4503599627370496 (- 53)) = Inr (1, 1)"
  unfolding split_lengths_def one_minus_05
  by (simp add: float_of_int_def round_dyadic_def round_ratio_def bitlen_numeral Let_def)

lemma world_10_view:
  "load_dataset (example_world ten_samples []) ''planes'' = Inr ten_samples"
  "seeded_shuffle (example_world ten_samples []) 51 (match_tags ''training'' ten_samples) =
     rev ten_samples"
  "length ten_samples = 10"
  by (simp_all add: load_dataset_def example_world_def ten_samples_def match_tags_training)

lemma world_2_view:
  "load_dataset (example_world [sample_a, sample_b] []) ''planes'' = Inr [sample_a, sample_b]"
  "seeded_shuffle (example_world [sample_a, sample_b] []) 51
     (match_tags ''training'' [sample_a, sample_b]) = [sample_b, sample_a]"
  by (simp_all add: load_dataset_def example_world_def match_tags_def sample_a_def sample_b_def
      training_sample_def)

text \<open>
  Claim C5.  With \<open>training_percentage = 0.8\<close> the specification expects, for 10
  samples, a training length of 8 and a validation length of 2 with no sample left
  out, and for 11 samples 8 and 2 with one sample left out.  The function computes 8
  and 1 for 10 samples, since \<open>1 - 0.8\<close> is the float \<open>0.19999999999999996\<close> and ten
  times it is below 2; for 11 samples it computes 8 and 2.
\<close>

theorem split_lengths_default_percentage:
  "float_literal 8 10 = Finite 7205759403792794 (- 53)
   \<and> float_sub (Finite 1 0) (float_literal 8 10) = Finite 7205759403792792 (- 55)
   \<and> split_lengths 10 (float_literal 8 10) = Inr (8, 1)
   \<and> split_lengths 11 (float_literal 8 10) = Inr (8, 2)"
  by (simp only: float_literal_08 one_minus_08 split_lengths_10 split_lengths_11 simp_thms)

text \<open>
  Claim C1.  The specification expects the validation length to be the floor of
  \<open>N * (1 - f)\<close>, so that only a flooring remainder is left out of both partitions.
  For the ten samples of the example and the default \<open>f = 0.8\<close> the function asks
  for 1 validation sample out of the 10 of the view and for 8 training samples out
  of the 9 that remain after skipping 1: nine samples in all, although 8 and 2 would
  leave no remainder.
\<close>

theorem export_ten_samples:
  "export_voxel51_dataset_to_tfrecords (example_world ten_samples []) ''planes''
     run1_filepaths ''detections'' (float_literal 8 10) =
     ([\<lparr>export_dir = ''/tf/dataset-export/run1/val/'', take_from = rev ten_samples,
        take_size = 1, export_label_field = ''detections''\<rparr>,
       \<lparr>export_dir = ''/tf/dataset-export/run1/train/'', take_from = skip 1 (rev ten_samples),
        take_size = 8, export_label_field = ''detections''\<rparr>],
      Inr ())
   \<and> length (rev ten_samples) = 10
   \<and> length (skip 1 (rev ten_samples)) = 9"
  by (simp add: export_voxel51_dataset_to_tfrecords_def world_10_view float_literal_08
      split_lengths_10 run1_filepaths_lookup skip_def Let_def)

text \<open>
  Claim C9.  The specification expects two runs over an unchanged dataset to give
  the same partitions because the shuffle is seeded.  The function passes the seed
  51 to \<open>shuffle\<close> only; the two \<open>take\<close> stages are built without a seed.  For the
  dataset of the two samples \<open>a\<close> and \<open>b\<close> and \<open>f = 0.5\<close> it asks for 1 validation
  sample out of the view and 1 training sample out of the rest: the validation
  partition may be \<open>a\<close> in one run and \<open>b\<close> in another, and it may be the sample that
  is also the training partition.
\<close>

theorem export_take_without_seed:
  "export_voxel51_dataset_to_tfrecords (example_world [sample_a, sample_b] []) ''planes''
     run1_filepaths ''detections'' (float_literal 1 2) =
     ([\<lparr>export_dir = ''/tf/dataset-export/run1/val/'', take_from = [sample_b, sample_a],
        take_size = 1, export_label_field = ''detections''\<rparr>,
       \<lparr>export_dir = ''/tf/dataset-export/run1/train/'',
        take_from = skip 1 [sample_b, sample_a],
        take_size = 1, export_label_field = ''detections''\<rparr>],
      Inr ())
   \<and> is_take 1 [sample_b, sample_a] [sample_a]
   \<and> is_take 1 [sample_b, sample_a] [sample_b]
   \<and> [sample_a] \<noteq> [sample_b]
   \<and> is_take 1 (skip 1 [sample_b, sample_a]) [sample_a]"
proof -
  have "is_take 1 [sample_b, sample_a] [sample_a]" "is_take 1 [sample_b, sample_a] [sample_b]"
    "[sample_a] \<noteq> [sample_b]" "is_take 1 (skip 1 [sample_b, sample_a]) [sample_a]"
    by (simp_all add: is_take_def skip_def sample_a_def sample_b_def training_sample_def)
  then show ?thesis
    by (simp add: export_voxel51_dataset_to_tfrecords_def world_2_view float_literal_05
        split_lengths_2_half run1_filepaths_lookup Let_def)
qed

end
